theory Spec2Isabelle
  imports Complex_Main
begin

section \<open>User similarity search: a shallow embedding of \<open>app/app.py\<close>\<close>

text \<open>
  The service maps a user record to a descriptive text, asks an embedding endpoint for a
  vector, and stores or searches the vector in a Qdrant collection. Python exceptions
  are values of the type \<open>error\<close>; a handler returns \<open>error + result\<close> together with
  the world it leaves behind. The diagnostic \<open>print\<close> calls are not modelled.
\<close>

subsection \<open>Errors and the data model\<close>

text \<open>
  \<open>HTTPException\<close> is FastAPI's exception with its status code and detail.
  \<open>ValidationError\<close> is what pydantic raises when \<open>User(**payload)\<close> rejects a payload,
  \<open>QdrantError\<close> any exception of the Qdrant client.
\<close>

datatype error =
    HTTPException int string
  | ValidationError string
  | QdrantError string

text \<open>
  \<open>class User(BaseModel)\<close>. The field \<open>age: int = None\<close> may be left out, and is
  then \<open>None\<close>: the default is not validated.
\<close>

record User =
  name :: string
  bio :: string
  interests :: "string list"
  location :: string
  age :: "int option"

text \<open>\<open>class UserResponse(BaseModel)\<close>; the field \<open>id\<close> is named \<open>ident\<close> here.\<close>

record UserResponse =
  ident :: string
  user :: User
  similarity_score :: "real option"

subsection \<open>Python's \<open>str\<close> of an integer and \<open>str.join\<close>\<close>

definition digit_char :: "nat \<Rightarrow> char" where
  "digit_char d = ''0123456789'' ! d"

fun str_nat :: "nat \<Rightarrow> string" where
  "str_nat n = (if n < 10 then [digit_char n] else str_nat (n div 10) @ [digit_char (n mod 10)])"

declare str_nat.simps [simp del]

definition str_int :: "int \<Rightarrow> string" where
  "str_int i = (if i < 0 then CHR ''-'' # str_nat (nat (- i)) else str_nat (nat i))"

fun join :: "string \<Rightarrow> string list \<Rightarrow> string" where
  "join sep [] = []"
| "join sep [x] = x"
| "join sep (x # y # ys) = x @ sep @ join sep (y # ys)"

subsection \<open>The text serializer\<close>

text \<open>
  \<open>user.age if user.age else 'Unknown'\<close> tests the truth value of the field: \<open>None\<close>
  and the integer \<open>0\<close> are both false in Python.
\<close>

definition truthy :: "int option \<Rightarrow> bool" where
  "truthy a = (case a of None \<Rightarrow> False | Some i \<Rightarrow> i \<noteq> 0)"

definition user_to_text :: "User \<Rightarrow> string" where
  "user_to_text u =
     (let interests_text = join '', '' (interests u) in
      ''Name: '' @ name u @ ''. Bio: '' @ bio u @ ''. Interests: '' @ interests_text @
      ''. Location: '' @ location u @ ''. Age: '' @
      (if truthy (age u) then str_int (the (age u)) else ''Unknown''))"

text \<open>
  The serialization as the specification words it: the age when the field is present,
  \<open>Unknown\<close> when it is absent.
\<close>

definition user_to_text_spec :: "User \<Rightarrow> string" where
  "user_to_text_spec u =
     ''Name: '' @ name u @ ''. Bio: '' @ bio u @ ''. Interests: '' @ join '', '' (interests u) @
     ''. Location: '' @ location u @ ''. Age: '' @
     (case age u of None \<Rightarrow> ''Unknown'' | Some a \<Rightarrow> str_int a)"

definition alice :: User where
  "alice = \<lparr>name = ''Alice'', bio = ''Hiker'', interests = [''maps'', ''tea''],
            location = ''Oslo'', age = Some 34\<rparr>"

definition newborn :: User where
  "newborn = \<lparr>name = ''Bo'', bio = ''Baby'', interests = [], location = ''Rome'', age = Some 0\<rparr>"

subsection \<open>Payloads: \<open>user.dict()\<close> and \<open>User(**payload)\<close>\<close>

text \<open>
  A point's payload is a JSON object, kept as an association list from keys to JSON
  values. \<open>user.dict()\<close> writes the five fields; an absent age is written as null.
\<close>

datatype jval =
    JNull
  | JBool bool
  | JInt int
  | JFloat real
  | JStr string
  | JList "jval list"
  | JObject "(string \<times> jval) list"

type_synonym payload = "(string \<times> jval) list"

definition user_dict :: "User \<Rightarrow> payload" where
  "user_dict u =
     [(''name'', JStr (name u)),
      (''bio'', JStr (bio u)),
      (''interests'', JList (map JStr (interests u))),
      (''location'', JStr (location u)),
      (''age'', (case age u of None \<Rightarrow> JNull | Some a \<Rightarrow> JInt a))]"

text \<open>
  Pydantic is not part of the repository, which pins no version of it; the model
  follows pydantic 2. It takes a value that already has the type of its field as it
  is, and it rejects null for a field of type \<open>str\<close>, \<open>list[str]\<close> or \<open>int\<close>. What it
  makes of any other value (its conversions, for instance of a numeric string to an
  integer) is a parameter of the model.
\<close>

record Lax =
  lax_str :: "jval \<Rightarrow> string option"
  lax_strs :: "jval \<Rightarrow> string list option"
  lax_int :: "jval \<Rightarrow> int option"

text \<open>
  \<open>User(**payload)\<close> reads the five fields by key, ignores any other key, and raises a
  validation error when a required field is missing or a value is rejected. The field
  \<open>age\<close> is declared \<open>int\<close> with the default \<open>None\<close>: a missing key takes the default,
  but a value that is present is validated as an integer, and null is not one. So the
  \<open>age: None\<close> that \<open>user.dict()\<close> writes for a user without age is rejected.
\<close>

fun str_field :: "Lax \<Rightarrow> jval option \<Rightarrow> string option" where
  "str_field lx None = None"
| "str_field lx (Some JNull) = None"
| "str_field lx (Some (JStr s)) = Some s"
| "str_field lx (Some v) = lax_str lx v"

fun str_items :: "Lax \<Rightarrow> jval list \<Rightarrow> string list option" where
  "str_items lx [] = Some []"
| "str_items lx (x # xs) =
     (case str_field lx (Some x) of
        None \<Rightarrow> None
      | Some s \<Rightarrow> (case str_items lx xs of None \<Rightarrow> None | Some ss \<Rightarrow> Some (s # ss)))"

fun str_list_field :: "Lax \<Rightarrow> jval option \<Rightarrow> string list option" where
  "str_list_field lx None = None"
| "str_list_field lx (Some JNull) = None"
| "str_list_field lx (Some (JList xs)) = str_items lx xs"
| "str_list_field lx (Some v) = lax_strs lx v"

fun opt_int_field :: "Lax \<Rightarrow> jval option \<Rightarrow> int option option" where
  "opt_int_field lx None = Some None"
| "opt_int_field lx (Some JNull) = None"
| "opt_int_field lx (Some (JInt i)) = Some (Some i)"
| "opt_int_field lx (Some v) = (case lax_int lx v of None \<Rightarrow> None | Some i \<Rightarrow> Some (Some i))"

definition User_of_payload :: "Lax \<Rightarrow> payload \<Rightarrow> error + User" where
  "User_of_payload lx p =
     (case str_field lx (map_of p ''name'') of
        None \<Rightarrow> Inl (ValidationError ''name'')
      | Some n \<Rightarrow>
     (case str_field lx (map_of p ''bio'') of
        None \<Rightarrow> Inl (ValidationError ''bio'')
      | Some b \<Rightarrow>
     (case str_list_field lx (map_of p ''interests'') of
        None \<Rightarrow> Inl (ValidationError ''interests'')
      | Some is \<Rightarrow>
     (case str_field lx (map_of p ''location'') of
        None \<Rightarrow> Inl (ValidationError ''location'')
      | Some l \<Rightarrow>
     (case opt_int_field lx (map_of p ''age'') of
        None \<Rightarrow> Inl (ValidationError ''age'')
      | Some a \<Rightarrow>
          Inr \<lparr>name = n, bio = b, interests = is, location = l, age = a\<rparr>)))))"

subsection \<open>The embedding endpoint\<close>

text \<open>
  One POST to \<open>/api/embeddings\<close>: the URL, the JSON body's model and prompt, and the
  client's timeout. The endpoint answers with a transport error (an exception of
  \<open>httpx\<close>, a timeout among them) or with a response: its status code and its body.
  A body is \<open>NotJson\<close> when \<open>response.json()\<close> or \<open>result.get\<close> raises, and otherwise
  \<open>Json e\<close> with \<open>e\<close> the value of \<open>result.get('embedding')\<close>: \<open>None\<close> when the key is
  missing or null.
\<close>

record EmbedRequest =
  url :: string
  model :: string
  prompt :: string
  timeout :: real

datatype Body = NotJson | Json "real list option"

datatype HttpOutcome = TransportError string | Response int Body

subsection \<open>The vector store\<close>

datatype Distance = COSINE | EUCLID | DOT | MANHATTAN

text \<open>\<open>models.PointStruct\<close>; the field \<open>id\<close> is named \<open>point_id\<close> here.\<close>

record PointStruct =
  point_id :: string
  vector :: "real list"
  payload :: payload

text \<open>A search hit: the point's id and payload, and its score against the query.\<close>

record ScoredPoint =
  hit_id :: string
  hit_payload :: payload
  score :: real

record Collection =
  vector_size :: nat
  distance :: Distance
  points :: "PointStruct list"

datatype qdrant_call =
    GetCollections
  | CreateCollection string nat Distance
  | Upsert string "PointStruct list"
  | Search string "real list" nat
  | Retrieve string "string list"
  | Scroll string nat

text \<open>
  The store behind the client \<open>qdrant\<close>: its collections by name, the calls that fail
  (the store is unreachable, or answers with an error of its own), the score it gives a
  stored vector against a query vector (floating point, left open), and the calls the
  service has issued so far, oldest first.
\<close>

record Qdrant =
  collections :: "(string \<times> Collection) list"
  faulty :: "qdrant_call \<Rightarrow> bool"
  similarity :: "real list \<Rightarrow> real list \<Rightarrow> real"
  calls :: "qdrant_call list"

definition issue :: "Qdrant \<Rightarrow> qdrant_call \<Rightarrow> Qdrant" where
  "issue q c = q\<lparr>calls := calls q @ [c]\<rparr>"

definition set_collection :: "string \<Rightarrow> Collection \<Rightarrow> (string \<times> Collection) list \<Rightarrow>
    (string \<times> Collection) list" where
  "set_collection n c cs = map (\<lambda>(m, d). if m = n then (m, c) else (m, d)) cs"

text \<open>
  \<open>qdrant_client\<close> and the Qdrant server are not part of the repository. The six
  operations the service calls are modelled below from section 4.3 of the
  specification. Each records its call, fails when the store marks the call as faulty,
  and fails on a collection that does not exist.
\<close>

text \<open>
  Modelled from the spec: \<open>qdrant.get_collections()\<close>, missing from the sources; the
  startup check reads the names of the existing collections from it.
\<close>

definition get_collections :: "Qdrant \<Rightarrow> (error + string list) \<times> Qdrant" where
  "get_collections q =
     (if faulty q GetCollections then (Inl (QdrantError ''unavailable''), issue q GetCollections)
      else (Inr (map fst (collections q)), issue q GetCollections))"

text \<open>
  Modelled from the spec: \<open>qdrant.create_collection\<close>, missing from the sources; it
  adds an empty collection of the given dimensionality and distance metric, and is an
  error when the name is taken.
\<close>

definition create_collection :: "Qdrant \<Rightarrow> string \<Rightarrow> nat \<Rightarrow> Distance \<Rightarrow> (error + unit) \<times> Qdrant" where
  "create_collection q n sz d =
     (let q' = issue q (CreateCollection n sz d) in
      if faulty q (CreateCollection n sz d) then (Inl (QdrantError ''unavailable''), q')
      else if map_of (collections q) n \<noteq> None then (Inl (QdrantError ''already exists''), q')
      else (Inr (),
            q'\<lparr>collections := collections q @ [(n, \<lparr>vector_size = sz, distance = d, points = []\<rparr>)]\<rparr>))"

text \<open>
  Modelled from the spec: \<open>qdrant.upsert\<close>, missing from the sources; insert or
  replace by id, the last write wins. A vector whose length is not the collection's
  dimensionality is a store-level error.
\<close>

definition put_point :: "PointStruct list \<Rightarrow> PointStruct \<Rightarrow> PointStruct list" where
  "put_point ps p = filter (\<lambda>x. point_id x \<noteq> point_id p) ps @ [p]"

definition upsert :: "Qdrant \<Rightarrow> string \<Rightarrow> PointStruct list \<Rightarrow> (error + unit) \<times> Qdrant" where
  "upsert q n ps =
     (let q' = issue q (Upsert n ps) in
      if faulty q (Upsert n ps) then (Inl (QdrantError ''unavailable''), q')
      else (case map_of (collections q) n of
              None \<Rightarrow> (Inl (QdrantError ''collection not found''), q')
            | Some c \<Rightarrow>
                if list_ex (\<lambda>p. length (vector p) \<noteq> vector_size c) ps
                then (Inl (QdrantError ''wrong vector size''), q')
                else (Inr (),
                      q'\<lparr>collections :=
                           set_collection n (c\<lparr>points := foldl put_point (points c) ps\<rparr>)
                             (collections q)\<rparr>)))"

text \<open>
  Modelled from the spec: \<open>qdrant.search\<close>, missing from the sources; the stored
  points ranked by their similarity to the query vector, highest first, cut at the
  limit.
\<close>

definition hit :: "Qdrant \<Rightarrow> real list \<Rightarrow> PointStruct \<Rightarrow> ScoredPoint" where
  "hit q v p = \<lparr>hit_id = point_id p, hit_payload = payload p, score = similarity q v (vector p)\<rparr>"

definition search :: "Qdrant \<Rightarrow> string \<Rightarrow> real list \<Rightarrow> nat \<Rightarrow> (error + ScoredPoint list) \<times> Qdrant" where
  "search q n v limit =
     (let q' = issue q (Search n v limit) in
      if faulty q (Search n v limit) then (Inl (QdrantError ''unavailable''), q')
      else (case map_of (collections q) n of
              None \<Rightarrow> (Inl (QdrantError ''collection not found''), q')
            | Some c \<Rightarrow>
                if length v \<noteq> vector_size c then (Inl (QdrantError ''wrong vector size''), q')
                else (Inr (take limit (sort_key (\<lambda>h. - score h) (map (hit q v) (points c)))), q')))"

text \<open>
  Modelled from the spec: \<open>qdrant.retrieve\<close>, missing from the sources; the stored
  points whose id is among the given ids, none when no id matches.
\<close>

definition retrieve :: "Qdrant \<Rightarrow> string \<Rightarrow> string list \<Rightarrow> (error + PointStruct list) \<times> Qdrant" where
  "retrieve q n ids =
     (let q' = issue q (Retrieve n ids) in
      if faulty q (Retrieve n ids) then (Inl (QdrantError ''unavailable''), q')
      else (case map_of (collections q) n of
              None \<Rightarrow> (Inl (QdrantError ''collection not found''), q')
            | Some c \<Rightarrow> (Inr (filter (\<lambda>p. point_id p \<in> set ids) (points c)), q')))"

text \<open>
  Modelled from the spec: \<open>qdrant.scroll\<close>, missing from the sources; a page of at
  most \<open>limit\<close> points, and the id the next page starts at, if any.
\<close>

definition scroll :: "Qdrant \<Rightarrow> string \<Rightarrow> nat \<Rightarrow>
    (error + PointStruct list \<times> string option) \<times> Qdrant" where
  "scroll q n limit =
     (let q' = issue q (Scroll n limit) in
      if faulty q (Scroll n limit) then (Inl (QdrantError ''unavailable''), q')
      else (case map_of (collections q) n of
              None \<Rightarrow> (Inl (QdrantError ''collection not found''), q')
            | Some c \<Rightarrow>
                (Inr (take limit (points c),
                      (if limit < length (points c) then Some (point_id (points c ! limit))
                       else None)), q')))"

subsection \<open>The world of the service\<close>

text \<open>
  What the module and its handlers read and change: the process environment, the
  embedding endpoint's answer to each request and the requests posted to it so far, the
  vector store, the source of \<open>uuid.uuid4()\<close> with the number of ids drawn from it,
  and the conversions of the installed pydantic.
\<close>

record World =
  environ :: "string \<Rightarrow> string option"
  ollama :: "EmbedRequest \<Rightarrow> HttpOutcome"
  posted :: "EmbedRequest list"
  qdrant :: Qdrant
  uuid4 :: "nat \<Rightarrow> string"
  uuid_count :: nat
  pydantic :: Lax

definition COLLECTION_NAME :: string where
  "COLLECTION_NAME = ''users1''"

definition VECTOR_SIZE :: nat where
  "VECTOR_SIZE = 768"

subsection \<open>Module-level collection setup\<close>

text \<open>
  The \<open>try\<close> block at import time. Its \<open>except\<close> clause prints and re-raises, so an
  error of either call is the result of the setup.
\<close>

definition startup :: "World \<Rightarrow> (error + unit) \<times> World" where
  "startup w =
     (case get_collections (qdrant w) of
        (Inl e, q) \<Rightarrow> (Inl e, w\<lparr>qdrant := q\<rparr>)
      | (Inr names, q) \<Rightarrow>
          (let collection_exists = list_ex (\<lambda>n. n = COLLECTION_NAME) names in
           if \<not> collection_exists then
             (case create_collection q COLLECTION_NAME VECTOR_SIZE COSINE of
                (Inl e, q') \<Rightarrow> (Inl e, w\<lparr>qdrant := q'\<rparr>)
              | (Inr _, q') \<Rightarrow> (Inr (), w\<lparr>qdrant := q'\<rparr>))
           else (Inr (), w\<lparr>qdrant := q\<rparr>)))"

subsection \<open>The embedding client\<close>

definition models_to_try :: "string list" where
  "models_to_try = [''nomic-embed-text'']"

definition ollama_host :: "World \<Rightarrow> string" where
  "ollama_host w = (case environ w ''OLLAMA_HOST'' of None \<Rightarrow> ''localhost'' | Some h \<Rightarrow> h)"

definition embed_request :: "string \<Rightarrow> string \<Rightarrow> string \<Rightarrow> EmbedRequest" where
  "embed_request host m text =
     \<lparr>url = ''http://'' @ host @ '':11434/api/embeddings'', model = m, prompt = text,
      timeout = 30\<rparr>"

text \<open>
  The \<open>for\<close> loop over the candidate models. A transport error is caught and the loop
  goes on; a status other than 200 and a null embedding \<open>continue\<close>; the first
  embedding that is not null is returned. After the loop the function raises.
\<close>

fun try_models :: "World \<Rightarrow> string \<Rightarrow> string \<Rightarrow> string list \<Rightarrow> (error + real list) \<times> World" where
  "try_models w host text [] =
     (Inl (HTTPException 500 ''Failed to generate embedding with any available model''), w)"
| "try_models w host text (m # ms) =
     (let req = embed_request host m text;
          w' = w\<lparr>posted := posted w @ [req]\<rparr>
      in case ollama w req of
           TransportError e \<Rightarrow> try_models w' host text ms
         | Response status_code body \<Rightarrow>
             if status_code \<noteq> 200 then try_models w' host text ms
             else (case body of
                     NotJson \<Rightarrow> try_models w' host text ms
                   | Json None \<Rightarrow> try_models w' host text ms
                   | Json (Some embedding) \<Rightarrow> (Inr embedding, w')))"

definition get_embedding :: "World \<Rightarrow> string \<Rightarrow> (error + real list) \<times> World" where
  "get_embedding w text = try_models w (ollama_host w) text models_to_try"

subsection \<open>The four handlers\<close>

definition create_user :: "World \<Rightarrow> User \<Rightarrow> (error + UserResponse) \<times> World" where
  "create_user w u =
     (case get_embedding w (user_to_text u) of
        (Inl e, w1) \<Rightarrow> (Inl e, w1)
      | (Inr embedding, w1) \<Rightarrow>
          (let user_id = uuid4 w1 (uuid_count w1);
               w2 = w1\<lparr>uuid_count := Suc (uuid_count w1)\<rparr>
           in case upsert (qdrant w2) COLLECTION_NAME
                     [\<lparr>point_id = user_id, vector = embedding, payload = user_dict u\<rparr>] of
                (Inl e, q) \<Rightarrow> (Inl e, w2\<lparr>qdrant := q\<rparr>)
              | (Inr _, q) \<Rightarrow>
                  (Inr \<lparr>ident = user_id, user = u, similarity_score = None\<rparr>, w2\<lparr>qdrant := q\<rparr>)))"

definition find_similar_user :: "World \<Rightarrow> User \<Rightarrow> (error + UserResponse) \<times> World" where
  "find_similar_user w u =
     (case get_embedding w (user_to_text u) of
        (Inl e, w1) \<Rightarrow> (Inl e, w1)
      | (Inr embedding, w1) \<Rightarrow>
          (case search (qdrant w1) COLLECTION_NAME embedding 1 of
             (Inl e, q) \<Rightarrow> (Inl e, w1\<lparr>qdrant := q\<rparr>)
           | (Inr [], q) \<Rightarrow> (Inl (HTTPException 404 ''No similar users found''), w1\<lparr>qdrant := q\<rparr>)
           | (Inr (top_result # _), q) \<Rightarrow>
               (case User_of_payload (pydantic w) (hit_payload top_result) of
                  Inl e \<Rightarrow> (Inl e, w1\<lparr>qdrant := q\<rparr>)
                | Inr found \<Rightarrow>
                    (Inr \<lparr>ident = hit_id top_result, user = found,
                          similarity_score = Some (score top_result)\<rparr>, w1\<lparr>qdrant := q\<rparr>))))"

definition get_user :: "World \<Rightarrow> string \<Rightarrow> (error + UserResponse) \<times> World" where
  "get_user w user_id =
     (case retrieve (qdrant w) COLLECTION_NAME [user_id] of
        (Inl e, q) \<Rightarrow> (Inl e, w\<lparr>qdrant := q\<rparr>)
      | (Inr [], q) \<Rightarrow> (Inl (HTTPException 404 ''User not found''), w\<lparr>qdrant := q\<rparr>)
      | (Inr (r # _), q) \<Rightarrow>
          (case User_of_payload (pydantic w) (payload r) of
             Inl e \<Rightarrow> (Inl e, w\<lparr>qdrant := q\<rparr>)
           | Inr found \<Rightarrow>
               (Inr \<lparr>ident = point_id r, user = found, similarity_score = None\<rparr>,
                w\<lparr>qdrant := q\<rparr>)))"

text \<open>The list comprehension of \<open>list_users\<close>: the first payload that is rejected raises.\<close>

fun list_entries :: "Lax \<Rightarrow> PointStruct list \<Rightarrow> error + UserResponse list" where
  "list_entries lx [] = Inr []"
| "list_entries lx (p # ps) =
     (case User_of_payload lx (payload p) of
        Inl e \<Rightarrow> Inl e
      | Inr found \<Rightarrow>
          (case list_entries lx ps of
             Inl e \<Rightarrow> Inl e
           | Inr rs \<Rightarrow> Inr (\<lparr>ident = point_id p, user = found, similarity_score = None\<rparr> # rs)))"

definition list_users :: "World \<Rightarrow> (error + UserResponse list) \<times> World" where
  "list_users w =
     (case scroll (qdrant w) COLLECTION_NAME 100 of
        (Inl e, q) \<Rightarrow> (Inl e, w\<lparr>qdrant := q\<rparr>)
      | (Inr (results, next_offset), q) \<Rightarrow>
          (case list_entries (pydantic w) results of
             Inl e \<Rightarrow> (Inl e, w\<lparr>qdrant := q\<rparr>)
           | Inr rs \<Rightarrow> (Inr rs, w\<lparr>qdrant := q\<rparr>)))"

subsection \<open>What the embedding client accepts\<close>

text \<open>
  The specification's reading of one candidate's answer: it is accepted when the response
  has status 200 and an embedding that is not null, and then yields that embedding.
  \<open>tried ok ms\<close> are the candidates up to and including the first accepted one.
\<close>

fun accepted :: "HttpOutcome \<Rightarrow> real list option" where
  "accepted (Response status_code (Json (Some v))) = (if status_code = 200 then Some v else None)"
| "accepted _ = None"

definition candidate_ok :: "World \<Rightarrow> string \<Rightarrow> string \<Rightarrow> string \<Rightarrow> bool" where
  "candidate_ok w host text m = (accepted (ollama w (embed_request host m text)) \<noteq> None)"

definition tried :: "('a \<Rightarrow> bool) \<Rightarrow> 'a list \<Rightarrow> 'a list" where
  "tried ok ms = takeWhile (\<lambda>m. \<not> ok m) ms @ take 1 (dropWhile (\<lambda>m. \<not> ok m) ms)"

subsection \<open>Sample values\<close>

text \<open>
  Concrete values on which the theorems below are instantiated: a 768-dimensional
  vector, a UUID source, endpoints that answer, refuse, or answer per model, stores
  with one collection \<open>users1\<close>, and worlds built from an endpoint and a store.
\<close>

definition unit_vec :: "real list" where
  "unit_vec = 1 # replicate 767 0"

definition sample_uuid :: "nat \<Rightarrow> string" where
  "sample_uuid n = ''user-'' @ replicate n (CHR ''x'')"

definition answering :: "EmbedRequest \<Rightarrow> HttpOutcome" where
  "answering r = Response 200 (Json (Some unit_vec))"

definition refusing :: "EmbedRequest \<Rightarrow> HttpOutcome" where
  "refusing r = Response 503 NotJson"

definition picky :: "EmbedRequest \<Rightarrow> HttpOutcome" where
  "picky r =
     (if model r = ''a'' then TransportError ''timed out''
      else if model r = ''b'' then Response 200 (Json None)
      else if model r = ''c'' then Response 200 (Json (Some [2, 3]))
      else Response 200 (Json (Some [5])))"

definition bob :: User where
  "bob = \<lparr>name = ''Bob'', bio = ''Cook'', interests = [''rice''], location = ''Lima'', age = None\<rparr>"

definition alice_point :: PointStruct where
  "alice_point = \<lparr>point_id = sample_uuid 0, vector = unit_vec, payload = user_dict alice\<rparr>"

definition bob_point :: PointStruct where
  "bob_point = \<lparr>point_id = sample_uuid 1, vector = replicate 768 0, payload = user_dict bob\<rparr>"

definition users_of :: "PointStruct list \<Rightarrow> (string \<times> Collection) list" where
  "users_of ps = [(''users1'', \<lparr>vector_size = 768, distance = COSINE, points = ps\<rparr>)]"

text \<open>A store that answers every call and scores every vector alike.\<close>

definition store_of :: "(string \<times> Collection) list \<Rightarrow> Qdrant" where
  "store_of cs = \<lparr>collections = cs, faulty = (\<lambda>c. False), similarity = (\<lambda>a b. 1), calls = []\<rparr>"

text \<open>The same store when every call to it fails.\<close>

definition flaky :: "Qdrant \<Rightarrow> Qdrant" where
  "flaky q = q\<lparr>faulty := (\<lambda>c. True)\<rparr>"

text \<open>A store that scores a vector by the product of the first coordinates.\<close>

definition choosy :: "real list \<Rightarrow> real list \<Rightarrow> real" where
  "choosy a b = hd a * hd b"

definition choosy_store :: "PointStruct list \<Rightarrow> Qdrant" where
  "choosy_store ps = (store_of (users_of ps))\<lparr>similarity := choosy\<rparr>"

text \<open>A pydantic that converts nothing.\<close>

definition strict :: Lax where
  "strict = \<lparr>lax_str = (\<lambda>v. None), lax_strs = (\<lambda>v. None), lax_int = (\<lambda>v. None)\<rparr>"

definition world_of :: "(EmbedRequest \<Rightarrow> HttpOutcome) \<Rightarrow> Qdrant \<Rightarrow> World" where
  "world_of endpoint q =
     \<lparr>environ = Map.empty, ollama = endpoint, posted = [], qdrant = q, uuid4 = sample_uuid,
      uuid_count = 0, pydantic = strict\<rparr>"


section \<open>Properties of the text serializer\<close>

lemma str_nat_small: "n < 10 \<Longrightarrow> str_nat n = [digit_char n]"
  by (simp add: str_nat.simps)

lemma str_nat_zero: "str_nat 0 = ''0''"
  by (simp add: str_nat.simps digit_char_def)

lemma str_nat_34: "str_nat 34 = ''34''"
  by (simp add: str_nat.simps [of 34] str_nat.simps [of 3] digit_char_def)

text \<open>
  C1 (as amended). For every user whose age is absent or a non-zero integer,
  \<open>user_to_text\<close> returns exactly the string of the specification: the five labelled
  fields, with the decimal age when it is present and \<open>Unknown\<close> when it is absent.
  The function is total: it has a value on every user.
\<close>

theorem user_to_text_matches_spec:
  assumes "age u \<noteq> Some 0"
  shows "user_to_text u = user_to_text_spec u"
proof (cases "age u")
  case None
  then show ?thesis
    by (simp add: user_to_text_def user_to_text_spec_def truthy_def)
next
  case (Some a)
  with assms have "a \<noteq> 0" by simp
  with Some show ?thesis
    by (simp add: user_to_text_def user_to_text_spec_def truthy_def)
qed

theorem user_to_text_matches_spec_witness:
  "age alice \<noteq> Some 0 \<and>
   user_to_text alice = user_to_text_spec alice \<and>
   user_to_text alice = ''Name: Alice. Bio: Hiker. Interests: maps, tea. Location: Oslo. Age: 34''"
proof -
  have h: "age alice \<noteq> Some 0" by (simp add: alice_def)
  have "user_to_text_spec alice =
        ''Name: Alice. Bio: Hiker. Interests: maps, tea. Location: Oslo. Age: 34''"
    by (simp add: user_to_text_spec_def alice_def str_int_def str_nat_34)
  with h user_to_text_matches_spec [OF h] show ?thesis by simp
qed

text \<open>
  C1 as stated fails: a user whose age is present and equal to 0 is serialized with
  \<open>Unknown\<close>, not with \<open>0\<close>.
\<close>

theorem user_to_text_age_zero_counterexample:
  "user_to_text newborn \<noteq> user_to_text_spec newborn"
  by (simp add: user_to_text_def user_to_text_spec_def newborn_def truthy_def str_int_def
      str_nat_zero)

text \<open>
  C10. For every user whose age is present and equal to 0, the serialized text ends in
  \<open>Age: Unknown\<close>, and it is the very text of the same user with the age absent; so
  the request sent to the embedding endpoint is the same for both.
\<close>

theorem user_to_text_age_zero:
  assumes "age u = Some 0"
  shows "user_to_text u =
           ''Name: '' @ name u @ ''. Bio: '' @ bio u @ ''. Interests: '' @
           join '', '' (interests u) @ ''. Location: '' @ location u @ ''. Age: Unknown''
         \<and> user_to_text u = user_to_text (u\<lparr>age := None\<rparr>)
         \<and> embed_request host m (user_to_text u) =
             embed_request host m (user_to_text (u\<lparr>age := None\<rparr>))"
  using assms by (simp add: user_to_text_def truthy_def)

theorem user_to_text_age_zero_witness:
  "age newborn = Some 0 \<and>
   user_to_text newborn = ''Name: Bo. Bio: Baby. Interests: . Location: Rome. Age: Unknown'' \<and>
   user_to_text newborn = user_to_text (newborn\<lparr>age := None\<rparr>)"
proof -
  have h: "age newborn = Some 0" by (simp add: newborn_def)
  have f: "name newborn = ''Bo''" "bio newborn = ''Baby''" "interests newborn = []"
    "location newborn = ''Rome''"
    by (simp_all add: newborn_def)
  note r = user_to_text_age_zero [OF h, unfolded f]
  have "user_to_text newborn =
        ''Name: Bo. Bio: Baby. Interests: . Location: Rome. Age: Unknown''"
    using r by simp
  moreover have "user_to_text newborn = user_to_text (newborn\<lparr>age := None\<rparr>)"
    using r by blast
  ultimately show ?thesis using h by (intro conjI)
qed

section \<open>The embedding client\<close>

lemma accepted_cases:
  "accepted r = (case r of TransportError e \<Rightarrow> None
     | Response s b \<Rightarrow> if s \<noteq> 200 then None else (case b of NotJson \<Rightarrow> None | Json e \<Rightarrow> e))"
  by (cases r rule: accepted.cases) auto

lemma try_models_step:
  "try_models w host text (m # ms) =
     (case accepted (ollama w (embed_request host m text)) of
        Some v \<Rightarrow> (Inr v, w\<lparr>posted := posted w @ [embed_request host m text]\<rparr>)
      | None \<Rightarrow> try_models (w\<lparr>posted := posted w @ [embed_request host m text]\<rparr>) host text ms)"
  by (simp add: accepted_cases Let_def split: HttpOutcome.splits Body.splits option.splits)

lemma try_models_ollama: "ollama (snd (try_models w host text ms)) = ollama w"
  by (induction ms arbitrary: w)
    (simp_all add: try_models_step del: try_models.simps(2) split: option.splits)

lemma try_models_result:
  "fst (try_models w host text ms) =
     (case find (candidate_ok w host text) ms of
        None \<Rightarrow> Inl (HTTPException 500 ''Failed to generate embedding with any available model'')
      | Some m \<Rightarrow> Inr (the (accepted (ollama w (embed_request host m text)))))"
proof (induction ms arbitrary: w)
  case Nil
  then show ?case by simp
next
  case (Cons m ms)
  have same: "candidate_ok (w\<lparr>posted := p\<rparr>) host text = candidate_ok w host text" for p
    by (simp add: candidate_ok_def fun_eq_iff)
  show ?case
    by (simp add: try_models_step Cons.IH same candidate_ok_def del: try_models.simps(2)
        split: option.splits)
qed

lemma try_models_posted:
  "posted (snd (try_models w host text ms)) =
     posted w @ map (\<lambda>m. embed_request host m text) (tried (candidate_ok w host text) ms)"
proof (induction ms arbitrary: w)
  case Nil
  then show ?case by (simp add: tried_def)
next
  case (Cons m ms)
  have same: "candidate_ok (w\<lparr>posted := p\<rparr>) host text = candidate_ok w host text" for p
    by (simp add: candidate_ok_def fun_eq_iff)
  show ?case
    by (simp add: try_models_step Cons.IH same candidate_ok_def tried_def
        del: try_models.simps(2) split: option.splits)
qed

lemma try_models_rest:
  "environ (snd (try_models w host text ms)) = environ w \<and>
   qdrant (snd (try_models w host text ms)) = qdrant w \<and>
   uuid4 (snd (try_models w host text ms)) = uuid4 w \<and>
   uuid_count (snd (try_models w host text ms)) = uuid_count w"
  by (induction ms arbitrary: w)
    (simp_all add: try_models_step del: try_models.simps(2) split: option.splits)

lemma find_None_list_all: "(find P xs = None) = list_all (\<lambda>x. \<not> P x) xs"
  by (induction xs) auto


lemma world_of_simps:
  "environ (world_of e q) = Map.empty" "ollama (world_of e q) = e" "posted (world_of e q) = []"
  "qdrant (world_of e q) = q" "uuid4 (world_of e q) = sample_uuid" "uuid_count (world_of e q) = 0"
  by (simp_all add: world_of_def)

lemma candidate_ok_iff:
  "candidate_ok w host text m =
     (\<exists>v. ollama w (embed_request host m text) = Response 200 (Json (Some v)))"
  by (cases "ollama w (embed_request host m text)" rule: accepted.cases)
    (auto simp: candidate_ok_def)

text \<open>
  C4. For every text and every list of candidate models, the loop of \<open>get_embedding\<close>
  posts to the candidates in their order, each request with timeout 30, up to and
  including the first candidate whose response has status 200 and an embedding that is
  not null, and returns that embedding; a transport error, another status, and a
  missing or null embedding pass to the next candidate. It raises \<open>HTTPException 500\<close>
  with its message if and only if every candidate fails, and it raises nothing else.
  \<open>get_embedding\<close> runs this loop on its fixed list of candidates.
\<close>

theorem try_models_first_accepted:
  "fst (try_models w host text ms) =
     (case find (candidate_ok w host text) ms of
        None \<Rightarrow> Inl (HTTPException 500 ''Failed to generate embedding with any available model'')
      | Some m \<Rightarrow> Inr (the (accepted (ollama w (embed_request host m text)))))
   \<and> posted (snd (try_models w host text ms)) =
       posted w @ map (\<lambda>m. embed_request host m text) (tried (candidate_ok w host text) ms)
   \<and> list_all (\<lambda>r. timeout r = 30)
        (drop (length (posted w)) (posted (snd (try_models w host text ms))))
   \<and> (fst (try_models w host text ms) =
         Inl (HTTPException 500 ''Failed to generate embedding with any available model''))
       = list_all (\<lambda>m. \<not> candidate_ok w host text m) ms
   \<and> (\<exists>e. fst (try_models w host text ms) = Inl e)
       = list_all (\<lambda>m. \<not> candidate_ok w host text m) ms
   \<and> candidate_ok w host text m =
       (\<exists>v. ollama w (embed_request host m text) = Response 200 (Json (Some v)))
   \<and> get_embedding w text = try_models w (ollama_host w) text models_to_try"
proof -
  let ?ok = "candidate_ok w host text"
  let ?msg = "''Failed to generate embedding with any available model''"
  have res: "fst (try_models w host text ms) =
     (case find ?ok ms of
        None \<Rightarrow> Inl (HTTPException 500 ?msg)
      | Some m \<Rightarrow> Inr (the (accepted (ollama w (embed_request host m text)))))"
    by (rule try_models_result)
  have log: "posted (snd (try_models w host text ms)) =
       posted w @ map (\<lambda>m. embed_request host m text) (tried ?ok ms)"
    by (rule try_models_posted)
  have tmo: "list_all (\<lambda>r. timeout r = 30)
       (drop (length (posted w)) (posted (snd (try_models w host text ms))))"
    by (simp add: log list_all_iff embed_request_def)
  have iff1: "(fst (try_models w host text ms) = Inl (HTTPException 500 ?msg))
       = list_all (\<lambda>m. \<not> ?ok m) ms"
    by (simp add: res find_None_list_all [symmetric] split: option.splits)
  have iff2: "(\<exists>e. fst (try_models w host text ms) = Inl e)
       = list_all (\<lambda>m. \<not> ?ok m) ms"
    by (simp add: res find_None_list_all [symmetric] split: option.splits)
  have ok: "?ok m = (\<exists>v. ollama w (embed_request host m text) = Response 200 (Json (Some v)))"
    by (rule candidate_ok_iff)
  have ge: "get_embedding w text = try_models w (ollama_host w) text models_to_try"
    by (rule get_embedding_def)
  from res log tmo iff1 iff2 ok ge show ?thesis by (intro conjI)
qed

theorem try_models_first_accepted_witness:
  "fst (try_models (world_of picky (store_of [])) ''h'' ''t'' [''a'', ''b'', ''c'', ''d'']) =
     Inr [2, 3] \<and>
   map model (posted (snd (try_models (world_of picky (store_of [])) ''h'' ''t''
                             [''a'', ''b'', ''c'', ''d'']))) = [''a'', ''b'', ''c''] \<and>
   fst (try_models (world_of picky (store_of [])) ''h'' ''t'' [''a'', ''b'']) =
     Inl (HTTPException 500 ''Failed to generate embedding with any available model'') \<and>
   map model (posted (snd (try_models (world_of picky (store_of [])) ''h'' ''t''
                             [''a'', ''b'']))) = [''a'', ''b''] \<and>
   fst (get_embedding (world_of answering (store_of [])) ''hello'') = Inr unit_vec \<and>
   posted (snd (get_embedding (world_of answering (store_of [])) ''hello'')) =
     [\<lparr>url = ''http://localhost:11434/api/embeddings'', model = ''nomic-embed-text'',
       prompt = ''hello'', timeout = 30\<rparr>] \<and>
   fst (get_embedding (world_of refusing (store_of [])) ''hello'') =
     Inl (HTTPException 500 ''Failed to generate embedding with any available model'')"
proof -
  let ?P = "world_of picky (store_of [])"
  let ?A = "world_of answering (store_of [])"
  let ?R = "world_of refusing (store_of [])"
  note p4 = try_models_first_accepted [of ?P "''h''" "''t''" "[''a'', ''b'', ''c'', ''d'']"]
  note p2 = try_models_first_accepted [of ?P "''h''" "''t''" "[''a'', ''b'']"]
  note a = try_models_first_accepted [of ?A "ollama_host ?A" "''hello''" models_to_try]
  note r = try_models_first_accepted [of ?R "ollama_host ?R" "''hello''" models_to_try]
  have 1: "fst (try_models ?P ''h'' ''t'' [''a'', ''b'', ''c'', ''d'']) = Inr [2, 3]"
    using p4 by (simp add: world_of_simps candidate_ok_def picky_def embed_request_def)
  have 2: "map model (posted (snd (try_models ?P ''h'' ''t'' [''a'', ''b'', ''c'', ''d'']))) =
      [''a'', ''b'', ''c'']"
    using p4
    by (simp add: world_of_simps candidate_ok_def picky_def embed_request_def tried_def)
  have 3: "fst (try_models ?P ''h'' ''t'' [''a'', ''b'']) =
      Inl (HTTPException 500 ''Failed to generate embedding with any available model'')"
    using p2 by (simp add: world_of_simps candidate_ok_def picky_def embed_request_def)
  have 4: "map model (posted (snd (try_models ?P ''h'' ''t'' [''a'', ''b'']))) = [''a'', ''b'']"
    using p2
    by (simp add: world_of_simps candidate_ok_def picky_def embed_request_def tried_def)
  have 5: "fst (get_embedding ?A ''hello'') = Inr unit_vec"
    using a
    by (simp add: world_of_simps candidate_ok_def answering_def models_to_try_def)
  have 6: "posted (snd (get_embedding ?A ''hello'')) =
     [\<lparr>url = ''http://localhost:11434/api/embeddings'', model = ''nomic-embed-text'',
       prompt = ''hello'', timeout = 30\<rparr>]"
    using a
    by (simp add: world_of_simps candidate_ok_def answering_def models_to_try_def tried_def
        ollama_host_def embed_request_def)
  have 7: "fst (get_embedding ?R ''hello'') =
     Inl (HTTPException 500 ''Failed to generate embedding with any available model'')"
    using r
    by (simp add: world_of_simps candidate_ok_def refusing_def models_to_try_def)
  from 1 2 3 4 5 6 7 show ?thesis by (intro conjI)
qed

lemma get_embedding_rest:
  "environ (snd (get_embedding w text)) = environ w \<and>
   qdrant (snd (get_embedding w text)) = qdrant w \<and>
   uuid4 (snd (get_embedding w text)) = uuid4 w \<and>
   uuid_count (snd (get_embedding w text)) = uuid_count w"
  unfolding get_embedding_def by (rule try_models_rest)

lemma get_embedding_fails:
  assumes "list_all (\<lambda>m. \<not> candidate_ok w (ollama_host w) text m) models_to_try"
  shows "fst (get_embedding w text) =
           Inl (HTTPException 500 ''Failed to generate embedding with any available model'')"
  using assms unfolding get_embedding_def
  by (simp add: try_models_result find_None_list_all [symmetric])

lemma candidate_fails_iff:
  "(\<not> candidate_ok w host text m) =
     (case ollama w (embed_request host m text) of
        TransportError e \<Rightarrow> True
      | Response status_code body \<Rightarrow>
          status_code \<noteq> 200 \<or> body = NotJson \<or> body = Json None)"
  by (simp add: candidate_ok_def accepted_cases split: HttpOutcome.splits Body.splits)

text \<open>
  C3. If every candidate model fails on the user's text, then \<open>create_user\<close> and
  \<open>find_similar_user\<close> both fail with \<open>HTTPException 500\<close>, and \<open>create_user\<close>
  leaves the store as it was: its collections are unchanged and no call, hence no
  upsert, has been issued to it.
\<close>

theorem embedding_failure_writes_nothing:
  assumes "list_all (\<lambda>m. \<not> candidate_ok w (ollama_host w) (user_to_text u) m) models_to_try"
  shows "fst (create_user w u) =
           Inl (HTTPException 500 ''Failed to generate embedding with any available model'')
       \<and> qdrant (snd (create_user w u)) = qdrant w
       \<and> fst (find_similar_user w u) =
           Inl (HTTPException 500 ''Failed to generate embedding with any available model'')
       \<and> qdrant (snd (find_similar_user w u)) = qdrant w"
proof -
  obtain r w1 where g: "get_embedding w (user_to_text u) = (r, w1)"
    by (cases "get_embedding w (user_to_text u)")
  from get_embedding_fails [OF assms] g
  have r: "r = Inl (HTTPException 500 ''Failed to generate embedding with any available model'')"
    by simp
  from get_embedding_rest [of w "user_to_text u"] g have q: "qdrant w1 = qdrant w"
    by simp
  show ?thesis
    by (simp add: create_user_def find_similar_user_def g r q)
qed

theorem embedding_failure_writes_nothing_witness:
  "list_all (\<lambda>m. \<not> candidate_ok (world_of refusing (store_of (users_of [])))
                    (ollama_host (world_of refusing (store_of (users_of []))))
                    (user_to_text alice) m) models_to_try \<and>
   fst (create_user (world_of refusing (store_of (users_of []))) alice) =
     Inl (HTTPException 500 ''Failed to generate embedding with any available model'') \<and>
   calls (qdrant (snd (create_user (world_of refusing (store_of (users_of []))) alice))) = [] \<and>
   collections (qdrant (snd (create_user (world_of refusing (store_of (users_of []))) alice))) =
     users_of [] \<and>
   fst (find_similar_user (world_of refusing (store_of (users_of []))) alice) =
     Inl (HTTPException 500 ''Failed to generate embedding with any available model'')"
proof -
  let ?w = "world_of refusing (store_of (users_of []))"
  have h: "list_all (\<lambda>m. \<not> candidate_ok ?w (ollama_host ?w) (user_to_text alice) m) models_to_try"
    by (simp add: candidate_ok_def world_of_simps refusing_def models_to_try_def)
  note t = embedding_failure_writes_nothing [OF h]
  have q: "qdrant ?w = store_of (users_of [])" by (simp add: world_of_simps)
  from t have s: "qdrant (snd (create_user ?w alice)) = store_of (users_of [])"
    by (simp add: q)
  have "calls (qdrant (snd (create_user ?w alice))) = []"
    unfolding s by (simp add: store_of_def)
  moreover have "collections (qdrant (snd (create_user ?w alice))) = users_of []"
    unfolding s by (simp add: store_of_def)
  ultimately show ?thesis using h t by (intro conjI) simp_all
qed

section \<open>The vector store and the handlers\<close>

lemma issue_simps:
  "collections (issue q c) = collections q" "faulty (issue q c) = faulty q"
  "similarity (issue q c) = similarity q" "calls (issue q c) = calls q @ [c]"
  by (simp_all add: issue_def)

lemma startup_absent:
  assumes "\<not> faulty (qdrant w) GetCollections"
    and "\<not> faulty (qdrant w) (CreateCollection COLLECTION_NAME VECTOR_SIZE COSINE)"
    and "map_of (collections (qdrant w)) COLLECTION_NAME = None"
  shows "fst (startup w) = Inr () \<and>
         collections (qdrant (snd (startup w))) =
           collections (qdrant w) @
             [(COLLECTION_NAME, \<lparr>vector_size = 768, distance = COSINE, points = []\<rparr>)] \<and>
         calls (qdrant (snd (startup w))) =
           calls (qdrant w) @ [GetCollections, CreateCollection COLLECTION_NAME 768 COSINE]"
proof -
  from assms(3) have "COLLECTION_NAME \<notin> fst ` set (collections (qdrant w))"
    by (simp add: map_of_eq_None_iff)
  then have ne: "\<not> list_ex (\<lambda>n. n = COLLECTION_NAME) (map fst (collections (qdrant w)))"
    by (auto simp: list_ex_iff)
  show ?thesis using assms ne
    by (simp add: startup_def get_collections_def create_collection_def issue_simps Let_def
        VECTOR_SIZE_def)
qed

lemma startup_present:
  assumes "\<not> faulty (qdrant w) GetCollections"
    and "map_of (collections (qdrant w)) COLLECTION_NAME = Some c"
  shows "fst (startup w) = Inr () \<and>
         collections (qdrant (snd (startup w))) = collections (qdrant w) \<and>
         calls (qdrant (snd (startup w))) = calls (qdrant w) @ [GetCollections]"
proof -
  from assms(2) have "COLLECTION_NAME \<in> fst ` set (collections (qdrant w))"
    by (metis map_of_eq_None_iff option.distinct(1))
  then have ex: "list_ex (\<lambda>n. n = COLLECTION_NAME) (map fst (collections (qdrant w)))"
    by (auto simp: list_ex_iff)
  show ?thesis using assms(1) ex
    by (simp add: startup_def get_collections_def issue_simps Let_def)
qed

lemma startup_fails_listing:
  assumes "faulty (qdrant w) GetCollections"
  shows "fst (startup w) = Inl (QdrantError ''unavailable'') \<and>
         collections (qdrant (snd (startup w))) = collections (qdrant w)"
  using assms by (simp add: startup_def get_collections_def issue_simps)

lemma startup_fails_creating:
  assumes "\<not> faulty (qdrant w) GetCollections"
    and "faulty (qdrant w) (CreateCollection COLLECTION_NAME VECTOR_SIZE COSINE)"
    and "map_of (collections (qdrant w)) COLLECTION_NAME = None"
  shows "fst (startup w) = Inl (QdrantError ''unavailable'') \<and>
         collections (qdrant (snd (startup w))) = collections (qdrant w)"
proof -
  from assms(3) have "COLLECTION_NAME \<notin> fst ` set (collections (qdrant w))"
    by (simp add: map_of_eq_None_iff)
  then have ne: "\<not> list_ex (\<lambda>n. n = COLLECTION_NAME) (map fst (collections (qdrant w)))"
    by (auto simp: list_ex_iff)
  show ?thesis using assms ne
    by (simp add: startup_def get_collections_def create_collection_def issue_simps Let_def)
qed

text \<open>
  C9. At start the module lists the collections. If \<open>users1\<close> is absent it issues one
  create call with size 768 and cosine distance, and the collection exists, empty,
  afterwards; if it is present no create call is issued and the collections are left
  as they were. If either call fails, the setup ends with that error and the
  collections are unchanged.
\<close>

theorem startup_ensures_collection:
  "(\<not> faulty (qdrant w) GetCollections \<and>
    map_of (collections (qdrant w)) COLLECTION_NAME = None \<and>
    \<not> faulty (qdrant w) (CreateCollection COLLECTION_NAME VECTOR_SIZE COSINE) \<longrightarrow>
      fst (startup w) = Inr () \<and>
      collections (qdrant (snd (startup w))) =
        collections (qdrant w) @
          [(COLLECTION_NAME, \<lparr>vector_size = 768, distance = COSINE, points = []\<rparr>)] \<and>
      calls (qdrant (snd (startup w))) =
        calls (qdrant w) @ [GetCollections, CreateCollection COLLECTION_NAME 768 COSINE])
   \<and> (\<not> faulty (qdrant w) GetCollections \<and>
      map_of (collections (qdrant w)) COLLECTION_NAME \<noteq> None \<longrightarrow>
      fst (startup w) = Inr () \<and>
      collections (qdrant (snd (startup w))) = collections (qdrant w) \<and>
      calls (qdrant (snd (startup w))) = calls (qdrant w) @ [GetCollections])
   \<and> (faulty (qdrant w) GetCollections \<or>
      map_of (collections (qdrant w)) COLLECTION_NAME = None \<and>
      faulty (qdrant w) (CreateCollection COLLECTION_NAME VECTOR_SIZE COSINE) \<longrightarrow>
      fst (startup w) = Inl (QdrantError ''unavailable'') \<and>
      collections (qdrant (snd (startup w))) = collections (qdrant w))"
proof (intro conjI impI)
  assume a: "\<not> faulty (qdrant w) GetCollections \<and>
    map_of (collections (qdrant w)) COLLECTION_NAME = None \<and>
    \<not> faulty (qdrant w) (CreateCollection COLLECTION_NAME VECTOR_SIZE COSINE)"
  then have r: "fst (startup w) = Inr () \<and>
         collections (qdrant (snd (startup w))) =
           collections (qdrant w) @
             [(COLLECTION_NAME, \<lparr>vector_size = 768, distance = COSINE, points = []\<rparr>)] \<and>
         calls (qdrant (snd (startup w))) =
           calls (qdrant w) @ [GetCollections, CreateCollection COLLECTION_NAME 768 COSINE]"
    by (intro startup_absent) simp_all
  from r show "fst (startup w) = Inr ()" by simp
  from r show "collections (qdrant (snd (startup w))) =
           collections (qdrant w) @
             [(COLLECTION_NAME, \<lparr>vector_size = 768, distance = COSINE, points = []\<rparr>)]"
    by simp
  from r show "calls (qdrant (snd (startup w))) =
           calls (qdrant w) @ [GetCollections, CreateCollection COLLECTION_NAME 768 COSINE]"
    by simp
next
  assume a: "\<not> faulty (qdrant w) GetCollections \<and>
      map_of (collections (qdrant w)) COLLECTION_NAME \<noteq> None"
  then obtain c where c: "map_of (collections (qdrant w)) COLLECTION_NAME = Some c"
    by auto
  from a have nf: "\<not> faulty (qdrant w) GetCollections" by simp
  note r = startup_present [OF nf c]
  from r show "fst (startup w) = Inr ()" by simp
  from r show "collections (qdrant (snd (startup w))) = collections (qdrant w)" by simp
  from r show "calls (qdrant (snd (startup w))) = calls (qdrant w) @ [GetCollections]" by simp
next
  assume a: "faulty (qdrant w) GetCollections \<or>
      map_of (collections (qdrant w)) COLLECTION_NAME = None \<and>
      faulty (qdrant w) (CreateCollection COLLECTION_NAME VECTOR_SIZE COSINE)"
  have r: "fst (startup w) = Inl (QdrantError ''unavailable'') \<and>
      collections (qdrant (snd (startup w))) = collections (qdrant w)"
  proof (cases "faulty (qdrant w) GetCollections")
    case True
    then show ?thesis by (rule startup_fails_listing)
  next
    case False
    with a show ?thesis by (intro startup_fails_creating) simp_all
  qed
  from r show "fst (startup w) = Inl (QdrantError ''unavailable'')" by simp
  from r show "collections (qdrant (snd (startup w))) = collections (qdrant w)" by simp
qed

lemma store_of_simps:
  "collections (store_of cs) = cs" "faulty (store_of cs) c = False" "calls (store_of cs) = []"
  "collections (flaky q) = collections q" "faulty (flaky q) c = True" "calls (flaky q) = calls q"
  by (simp_all add: store_of_def flaky_def)

theorem startup_ensures_collection_witness:
  "fst (startup (world_of answering (store_of []))) = Inr () \<and>
   collections (qdrant (snd (startup (world_of answering (store_of []))))) = users_of [] \<and>
   calls (qdrant (snd (startup (world_of answering (store_of []))))) =
     [GetCollections, CreateCollection ''users1'' 768 COSINE] \<and>
   fst (startup (world_of answering (store_of (users_of [alice_point])))) = Inr () \<and>
   collections (qdrant (snd (startup (world_of answering (store_of (users_of [alice_point]))))))
     = users_of [alice_point] \<and>
   calls (qdrant (snd (startup (world_of answering (store_of (users_of [alice_point])))))) =
     [GetCollections] \<and>
   fst (startup (world_of answering (flaky (store_of [])))) = Inl (QdrantError ''unavailable'')"
proof -
  note a = startup_ensures_collection [of "world_of answering (store_of [])"]
  note b = startup_ensures_collection [of "world_of answering (store_of (users_of [alice_point]))"]
  note c = startup_ensures_collection [of "world_of answering (flaky (store_of []))"]
  have 1: "fst (startup (world_of answering (store_of []))) = Inr () \<and>
   collections (qdrant (snd (startup (world_of answering (store_of []))))) = users_of [] \<and>
   calls (qdrant (snd (startup (world_of answering (store_of []))))) =
     [GetCollections, CreateCollection ''users1'' 768 COSINE]"
    using a by (simp add: world_of_simps store_of_simps users_of_def COLLECTION_NAME_def)
  have 2: "fst (startup (world_of answering (store_of (users_of [alice_point])))) = Inr () \<and>
   collections (qdrant (snd (startup (world_of answering (store_of (users_of [alice_point]))))))
     = users_of [alice_point] \<and>
   calls (qdrant (snd (startup (world_of answering (store_of (users_of [alice_point])))))) =
     [GetCollections]"
    using b by (simp add: world_of_simps store_of_simps users_of_def COLLECTION_NAME_def)
  have 3: "fst (startup (world_of answering (flaky (store_of [])))) =
     Inl (QdrantError ''unavailable'')"
    using c by (simp add: world_of_simps store_of_simps)
  from 1 2 3 show ?thesis by simp
qed

subsection \<open>Reading a stored payload back\<close>

lemma world_of_pydantic: "pydantic (world_of e q) = strict"
  by (simp add: world_of_def)

lemma str_items_map: "str_items lx (map JStr xs) = Some xs"
  by (induction xs) simp_all

lemma User_of_user_dict:
  "User_of_payload lx (user_dict u) =
     (case age u of None \<Rightarrow> Inl (ValidationError ''age'') | Some a \<Rightarrow> Inr u)"
  by (cases "age u") (simp_all add: User_of_payload_def user_dict_def str_items_map)

subsection \<open>Retrieval by id\<close>

lemma filter_find_None: "find P xs = None \<Longrightarrow> filter P xs = []"
  by (induction xs) (auto split: if_splits)

lemma filter_find_Some: "find P xs = Some x \<Longrightarrow> \<exists>rest. filter P xs = x # rest"
  by (induction xs) (auto split: if_splits)

lemma retrieve_one:
  assumes "\<not> faulty q (Retrieve n [i])" and "map_of (collections q) n = Some c"
  shows "retrieve q n [i] = (Inr (filter (\<lambda>p. point_id p = i) (points c)), issue q (Retrieve n [i]))"
  using assms by (simp add: retrieve_def Let_def)

lemma get_user_absent:
  assumes "\<not> faulty (qdrant w) (Retrieve COLLECTION_NAME [i])"
    and "map_of (collections (qdrant w)) COLLECTION_NAME = Some c"
    and "find (\<lambda>p. point_id p = i) (points c) = None"
  shows "fst (get_user w i) = Inl (HTTPException 404 ''User not found'')"
proof -
  from assms(3) have "filter (\<lambda>p. point_id p = i) (points c) = []"
    by (rule filter_find_None)
  then show ?thesis
    by (simp add: get_user_def retrieve_one [OF assms(1,2)])
qed

lemma get_user_present:
  assumes "\<not> faulty (qdrant w) (Retrieve COLLECTION_NAME [i])"
    and "map_of (collections (qdrant w)) COLLECTION_NAME = Some c"
    and "find (\<lambda>p. point_id p = i) (points c) = Some p"
  shows "fst (get_user w i) =
           (case User_of_payload (pydantic w) (payload p) of
              Inl e \<Rightarrow> Inl e
            | Inr found \<Rightarrow> Inr \<lparr>ident = i, user = found, similarity_score = None\<rparr>)"
proof -
  from filter_find_Some [OF assms(3)]
  obtain rest where f: "filter (\<lambda>p. point_id p = i) (points c) = p # rest"
    by blast
  from assms(3) have "point_id p = i"
    by (auto simp: find_Some_iff)
  then show ?thesis
    by (simp add: get_user_def retrieve_one [OF assms(1,2)] f split: sum.splits)
qed

lemma get_user_stored_user:
  assumes "\<not> faulty (qdrant w) (Retrieve COLLECTION_NAME [i])"
    and "map_of (collections (qdrant w)) COLLECTION_NAME = Some c"
    and "find (\<lambda>p. point_id p = i) (points c) = Some p"
    and "payload p = user_dict u"
  shows "fst (get_user w i) =
           (case age u of
              None \<Rightarrow> Inl (ValidationError ''age'')
            | Some a \<Rightarrow> Inr \<lparr>ident = i, user = u, similarity_score = None\<rparr>)"
  by (simp add: get_user_present [OF assms(1-3)] assms(4) User_of_user_dict split: option.splits)

lemma store_users: "map_of (collections (qdrant (world_of e (store_of (users_of ps))))) COLLECTION_NAME
    = Some \<lparr>vector_size = 768, distance = COSINE, points = ps\<rparr>"
  by (simp add: world_of_simps store_of_simps users_of_def COLLECTION_NAME_def)

lemma store_answers: "\<not> faulty (qdrant (world_of e (store_of cs))) call"
  by (simp add: world_of_simps store_of_simps)

lemma sample_uuid_neq:
  "sample_uuid 0 \<noteq> sample_uuid (Suc 0)" "sample_uuid (Suc 0) \<noteq> sample_uuid 0"
  by (simp_all add: sample_uuid_def)

text \<open>
  C6. A point stored for a user without age: \<open>get_user\<close> with its id does not
  return the point's id and user, it raises the validation error of
  \<open>User(**payload)\<close>, because the payload written by \<open>user.dict()\<close> has
  \<open>age: None\<close>. A point stored for a user with an age is returned with its id and
  that user (\<open>get_user_stored_user\<close> above has both cases for every stored user, and
  \<open>get_user_absent\<close> the 404 when no point has the id).
\<close>

theorem get_user_rejects_stored_null_age:
  "age bob = None \<and>
   fst (get_user (world_of answering (store_of (users_of [alice_point, bob_point]))) (sample_uuid 1)) =
     Inl (ValidationError ''age'') \<and>
   fst (get_user (world_of answering (store_of (users_of [alice_point, bob_point]))) (sample_uuid 0)) =
     Inr \<lparr>ident = sample_uuid 0, user = alice, similarity_score = None\<rparr>"
proof -
  let ?W = "world_of answering (store_of (users_of [alice_point, bob_point]))"
  let ?c = "\<lparr>vector_size = 768, distance = COSINE, points = [alice_point, bob_point]\<rparr>"
  have fb: "find (\<lambda>p. point_id p = sample_uuid 1) (points ?c) = Some bob_point"
    by (simp add: alice_point_def bob_point_def sample_uuid_neq)
  have fa: "find (\<lambda>p. point_id p = sample_uuid 0) (points ?c) = Some alice_point"
    by (simp add: alice_point_def)
  have pb: "payload bob_point = user_dict bob" by (simp add: bob_point_def)
  have pa: "payload alice_point = user_dict alice" by (simp add: alice_point_def)
  have ab: "age bob = None" by (simp add: bob_def)
  have aa: "age alice = Some 34" by (simp add: alice_def)
  from get_user_stored_user [OF store_answers store_users fb pb] ab
  have 1: "fst (get_user ?W (sample_uuid 1)) = Inl (ValidationError ''age'')" by simp
  from get_user_stored_user [OF store_answers store_users fa pa] aa
  have 2: "fst (get_user ?W (sample_uuid 0)) =
      Inr \<lparr>ident = sample_uuid 0, user = alice, similarity_score = None\<rparr>" by simp
  from ab 1 2 show ?thesis by (intro conjI)
qed

subsection \<open>Listing\<close>

lemma scroll_page:
  assumes "\<not> faulty q (Scroll n limit)" and "map_of (collections q) n = Some c"
  shows "fst (scroll q n limit) = Inr (take limit (points c),
           (if limit < length (points c) then Some (point_id (points c ! limit)) else None))"
  using assms by (simp add: scroll_def Let_def)

lemma list_users_page:
  assumes "\<not> faulty (qdrant w) (Scroll COLLECTION_NAME 100)"
    and "map_of (collections (qdrant w)) COLLECTION_NAME = Some c"
  shows "fst (list_users w) = list_entries (pydantic w) (take 100 (points c))"
proof -
  obtain r q where s: "scroll (qdrant w) COLLECTION_NAME 100 = (r, q)"
    by (cases "scroll (qdrant w) COLLECTION_NAME 100")
  from scroll_page [OF assms] s
  have r: "r = Inr (take 100 (points c),
      (if 100 < length (points c) then Some (point_id (points c ! 100)) else None))"
    by simp
  show ?thesis
    by (simp add: list_users_def s r split: sum.splits)
qed

lemma list_entries_stored_users:
  assumes "map payload ps = map user_dict us" and "list_all (\<lambda>u. age u \<noteq> None) us"
  shows "list_entries lx ps =
           Inr (map (\<lambda>(p, u). \<lparr>ident = point_id p, user = u, similarity_score = None\<rparr>) (zip ps us))"
  using assms
proof (induction ps arbitrary: us)
  case Nil
  then show ?case by simp
next
  case (Cons p ps)
  then obtain u us' where us: "us = u # us'" by (cases us) auto
  with Cons.prems have p: "payload p = user_dict u" and rest: "map payload ps = map user_dict us'"
    and a: "age u \<noteq> None" and as: "list_all (\<lambda>u. age u \<noteq> None) us'"
    by simp_all
  from a obtain k where k: "age u = Some k" by auto
  from Cons.IH [OF rest as] show ?case
    by (simp add: us p User_of_user_dict k)
qed

lemma list_entries_null_age:
  assumes "payload p = user_dict u" and "age u = None"
  shows "list_entries lx (p # ps) = Inl (ValidationError ''age'')"
  using assms by (simp add: User_of_user_dict)

text \<open>
  C7. A collection that holds one user stored without age: \<open>list_users\<close> does not
  return one entry, it raises the validation error of \<open>User(**payload)\<close>. On a
  collection that holds one user with an age it returns that one entry
  (\<open>list_users_page\<close> and \<open>list_entries_stored_users\<close> above: one entry per point of
  the first 100 when every stored user has an age).
\<close>

theorem list_users_rejects_stored_null_age:
  "age bob = None \<and>
   fst (list_users (world_of answering (store_of (users_of [bob_point])))) =
     Inl (ValidationError ''age'') \<and>
   fst (list_users (world_of answering (store_of (users_of [alice_point])))) =
     Inr [\<lparr>ident = sample_uuid 0, user = alice, similarity_score = None\<rparr>]"
proof -
  have ab: "age bob = None" by (simp add: bob_def)
  have pb: "payload bob_point = user_dict bob" by (simp add: bob_point_def)
  have 1: "fst (list_users (world_of answering (store_of (users_of [bob_point])))) =
      Inl (ValidationError ''age'')"
    by (simp add: list_users_page [OF store_answers store_users]
        list_entries_null_age [OF pb ab] del: list_entries.simps)
  have "list_entries lx [alice_point] =
      Inr [\<lparr>ident = sample_uuid 0, user = alice, similarity_score = None\<rparr>]" for lx
    using list_entries_stored_users [of "[alice_point]" "[alice]" lx]
    by (simp add: alice_point_def alice_def)
  then have 2: "fst (list_users (world_of answering (store_of (users_of [alice_point])))) =
      Inr [\<lparr>ident = sample_uuid 0, user = alice, similarity_score = None\<rparr>]"
    by (simp add: list_users_page [OF store_answers store_users] del: list_entries.simps)
  from ab 1 2 show ?thesis by (intro conjI)
qed

subsection \<open>Nearest-neighbour search\<close>

lemma search_Inr:
  assumes "fst (search q n v limit) = Inr hits"
  shows "\<exists>c. map_of (collections q) n = Some c \<and>
             hits = take limit (sort_key (\<lambda>h. - score h) (map (hit q v) (points c)))"
  using assms by (auto simp: search_def Let_def split: if_splits option.splits)

lemma find_similar_user_hits:
  assumes "fst (get_embedding w (user_to_text u)) = Inr v"
    and "fst (search (qdrant w) COLLECTION_NAME v 1) = Inr hits"
  shows "fst (find_similar_user w u) =
           (case hits of
              [] \<Rightarrow> Inl (HTTPException 404 ''No similar users found'')
            | best # rest \<Rightarrow>
                (case User_of_payload (pydantic w) (hit_payload best) of
                   Inl e \<Rightarrow> Inl e
                 | Inr found \<Rightarrow>
                     Inr \<lparr>ident = hit_id best, user = found,
                          similarity_score = Some (score best)\<rparr>))"
proof -
  obtain r w1 where g: "get_embedding w (user_to_text u) = (r, w1)"
    by (cases "get_embedding w (user_to_text u)")
  with assms(1) have r: "r = Inr v" by simp
  from get_embedding_rest [of w "user_to_text u"] g have q: "qdrant w1 = qdrant w"
    by simp
  obtain s q' where s: "search (qdrant w) COLLECTION_NAME v 1 = (s, q')"
    by (cases "search (qdrant w) COLLECTION_NAME v 1")
  with assms(2) have s': "s = Inr hits" by simp
  show ?thesis
    by (simp add: find_similar_user_def g r q s s' del: One_nat_def split: list.splits sum.splits)
qed

lemma choosy_store_simps:
  "collections (choosy_store ps) = users_of ps" "faulty (choosy_store ps) c = False"
  "similarity (choosy_store ps) = choosy" "calls (choosy_store ps) = []"
  by (simp_all add: choosy_store_def store_of_def)

lemma answering_embeds: "fst (get_embedding (world_of answering q) text) = Inr unit_vec"
  by (simp add: get_embedding_def models_to_try_def world_of_simps answering_def Let_def)

text \<open>
  C5. When the top hit of the search is a user stored without age,
  \<open>find_similar_user\<close> does not return the hit's id, user and score, it raises the
  validation error of \<open>User(**payload)\<close>. When the top hit is a user with an age it
  returns that hit's id, user and score, and on an empty collection it fails with
  \<open>HTTPException 404\<close>.
\<close>

theorem find_similar_user_rejects_stored_null_age:
  "age bob = None \<and>
   fst (find_similar_user (world_of answering (choosy_store [bob_point])) alice) =
     Inl (ValidationError ''age'') \<and>
   fst (find_similar_user (world_of answering (choosy_store [bob_point, alice_point])) alice) =
     Inr \<lparr>ident = sample_uuid 0, user = alice, similarity_score = Some 1\<rparr> \<and>
   fst (find_similar_user (world_of answering (choosy_store [])) alice) =
     Inl (HTTPException 404 ''No similar users found'')"
proof -
  let ?E = "world_of answering (choosy_store [])"
  let ?B = "world_of answering (choosy_store [bob_point])"
  let ?W = "world_of answering (choosy_store [bob_point, alice_point])"
  let ?hb = "\<lparr>hit_id = sample_uuid 1, hit_payload = user_dict bob, score = 0\<rparr>"
  let ?ha = "\<lparr>hit_id = sample_uuid 0, hit_payload = user_dict alice, score = 1\<rparr>"
  have ab: "age bob = None" by (simp add: bob_def)
  have aa: "age alice = Some 34" by (simp add: alice_def)
  have len: "length unit_vec = 768" by (simp add: unit_vec_def)
  have se: "fst (search (qdrant ?E) COLLECTION_NAME unit_vec 1) = Inr []"
    by (simp add: search_def Let_def world_of_simps choosy_store_simps users_of_def
        COLLECTION_NAME_def len)
  have sb: "fst (search (qdrant ?B) COLLECTION_NAME unit_vec 1) = Inr [?hb]"
    by (simp add: search_def Let_def world_of_simps choosy_store_simps users_of_def
        COLLECTION_NAME_def len hit_def bob_point_def choosy_def unit_vec_def)
  have sw: "fst (search (qdrant ?W) COLLECTION_NAME unit_vec 1) = Inr [?ha]"
    by (simp add: search_def Let_def world_of_simps choosy_store_simps users_of_def
        COLLECTION_NAME_def len hit_def bob_point_def alice_point_def choosy_def unit_vec_def)
  have 1: "fst (find_similar_user ?B alice) = Inl (ValidationError ''age'')"
    by (simp add: find_similar_user_hits [OF answering_embeds sb] User_of_user_dict ab)
  have 2: "fst (find_similar_user ?W alice) =
      Inr \<lparr>ident = sample_uuid 0, user = alice, similarity_score = Some 1\<rparr>"
    by (simp add: find_similar_user_hits [OF answering_embeds sw] User_of_user_dict aa)
  have 3: "fst (find_similar_user ?E alice) = Inl (HTTPException 404 ''No similar users found'')"
    by (simp add: find_similar_user_hits [OF answering_embeds se])
  from ab 1 2 3 show ?thesis by (intro conjI)
qed

subsection \<open>Creating users\<close>

lemma map_of_set_collection:
  "map_of cs n = Some c \<Longrightarrow> map_of (set_collection n c' cs) n = Some c'"
  by (induction cs) (auto simp: set_collection_def split: if_splits)

lemma find_put_point: "find (\<lambda>x. point_id x = point_id p) (put_point ps p) = Some p"
  by (induction ps) (simp_all add: put_point_def)


lemma put_point_same:
  assumes "point_id a = point_id b"
  shows "put_point (put_point ps a) b = filter (\<lambda>x. point_id x \<noteq> point_id b) ps @ [b]"
  using assms by (simp add: put_point_def)

lemma upsert_one_Inr:
  assumes "upsert q n [p] = (Inr x, q')"
  shows "\<exists>c. map_of (collections q) n = Some c \<and> length (vector p) = vector_size c \<and>
             collections q' = set_collection n (c\<lparr>points := put_point (points c) p\<rparr>) (collections q) \<and>
             faulty q' = faulty q \<and> similarity q' = similarity q \<and>
             calls q' = calls q @ [Upsert n [p]]"
  using assms
  by (auto simp: upsert_def Let_def issue_def split: if_splits option.splits)

lemma create_user_success:
  assumes "create_user w u = (Inr r, w')"
  shows "\<exists>v c. fst (get_embedding w (user_to_text u)) = Inr v \<and>
           map_of (collections (qdrant w)) COLLECTION_NAME = Some c \<and>
           length v = vector_size c \<and>
           r = \<lparr>ident = uuid4 w (uuid_count w), user = u, similarity_score = None\<rparr> \<and>
           collections (qdrant w') =
             set_collection COLLECTION_NAME
               (c\<lparr>points := put_point (points c)
                    \<lparr>point_id = uuid4 w (uuid_count w), vector = v, payload = user_dict u\<rparr>\<rparr>)
               (collections (qdrant w)) \<and>
           faulty (qdrant w') = faulty (qdrant w) \<and>
           uuid4 w' = uuid4 w \<and> uuid_count w' = Suc (uuid_count w)"
proof -
  obtain x w1 where g: "get_embedding w (user_to_text u) = (x, w1)"
    by (cases "get_embedding w (user_to_text u)")
  from get_embedding_rest [of w "user_to_text u"] g
  have rest: "qdrant w1 = qdrant w" "uuid4 w1 = uuid4 w" "uuid_count w1 = uuid_count w"
    by simp_all
  from assms g obtain v where x: "x = Inr v"
    by (cases x) (simp_all add: create_user_def)
  let ?p = "\<lparr>point_id = uuid4 w (uuid_count w), vector = v, payload = user_dict u\<rparr>"
  obtain y q where up: "upsert (qdrant w) COLLECTION_NAME [?p] = (y, q)"
    by (cases "upsert (qdrant w) COLLECTION_NAME [?p]")
  from assms have y: "y = Inr ()" and r: "r = \<lparr>ident = uuid4 w (uuid_count w), user = u,
      similarity_score = None\<rparr>" and w': "w' = w1\<lparr>uuid_count := Suc (uuid_count w), qdrant := q\<rparr>"
    by (cases y; simp add: create_user_def g x rest up Let_def)+
  from up y have "upsert (qdrant w) COLLECTION_NAME [?p] = (Inr (), q)" by simp
  from upsert_one_Inr [OF this] obtain c where
    c: "map_of (collections (qdrant w)) COLLECTION_NAME = Some c" "length v = vector_size c"
      "collections q = set_collection COLLECTION_NAME (c\<lparr>points := put_point (points c) ?p\<rparr>)
         (collections (qdrant w))"
      "faulty q = faulty (qdrant w)"
    by auto
  from g x have "fst (get_embedding w (user_to_text u)) = Inr v" by simp
  with c r w' rest show ?thesis by simp
qed

lemma create_then_get:
  assumes "create_user w u = (Inr r, w')"
    and "\<not> faulty (qdrant w') (Retrieve COLLECTION_NAME [ident r])"
  shows "fst (get_user w' (ident r)) =
           (case age u of
              None \<Rightarrow> Inl (ValidationError ''age'')
            | Some a \<Rightarrow> Inr \<lparr>ident = ident r, user = u, similarity_score = None\<rparr>)"
proof -
  from create_user_success [OF assms(1)] obtain v c where
    c: "map_of (collections (qdrant w)) COLLECTION_NAME = Some c"
    and r: "r = \<lparr>ident = uuid4 w (uuid_count w), user = u, similarity_score = None\<rparr>"
    and cs: "collections (qdrant w') =
             set_collection COLLECTION_NAME
               (c\<lparr>points := put_point (points c)
                    \<lparr>point_id = uuid4 w (uuid_count w), vector = v, payload = user_dict u\<rparr>\<rparr>)
               (collections (qdrant w))"
    by blast
  let ?p = "\<lparr>point_id = ident r, vector = v, payload = user_dict u\<rparr>"
  let ?c = "c\<lparr>points := put_point (points c) ?p\<rparr>"
  from r have i: "ident r = uuid4 w (uuid_count w)" by simp
  from cs c have c': "map_of (collections (qdrant w')) COLLECTION_NAME = Some ?c"
    by (simp add: map_of_set_collection i)
  have "find (\<lambda>x. point_id x = point_id ?p) (put_point (points c) ?p) = Some ?p"
    by (rule find_put_point)
  then have f: "find (\<lambda>x. point_id x = ident r) (points ?c) = Some ?p" by simp
  have pl: "payload ?p = user_dict u" by simp
  show ?thesis by (rule get_user_stored_user [OF assms(2) c' f pl])
qed

lemma create_user_runs:
  assumes "fst (get_embedding w (user_to_text u)) = Inr v"
    and "map_of (collections (qdrant w)) COLLECTION_NAME = Some c"
    and "length v = vector_size c"
    and "\<not> faulty (qdrant w) (Upsert COLLECTION_NAME
            [\<lparr>point_id = uuid4 w (uuid_count w), vector = v, payload = user_dict u\<rparr>])"
  shows "fst (create_user w u) =
           Inr \<lparr>ident = uuid4 w (uuid_count w), user = u, similarity_score = None\<rparr>"
proof -
  obtain x w1 where g: "get_embedding w (user_to_text u) = (x, w1)"
    by (cases "get_embedding w (user_to_text u)")
  from get_embedding_rest [of w "user_to_text u"] g
  have rest: "qdrant w1 = qdrant w" "uuid4 w1 = uuid4 w" "uuid_count w1 = uuid_count w"
    by simp_all
  from assms(1) g have x: "x = Inr v" by simp
  from assms(2-4) show ?thesis
    by (simp add: create_user_def g x rest Let_def upsert_def)
qed

lemma create_user_keeps:
  "ollama (snd (create_user w u)) = ollama w \<and> environ (snd (create_user w u)) = environ w \<and>
   faulty (qdrant (snd (create_user w u))) = faulty (qdrant w)"
proof -
  obtain x w1 where g: "get_embedding w (user_to_text u) = (x, w1)"
    by (cases "get_embedding w (user_to_text u)")
  from get_embedding_rest [of w "user_to_text u"] g
  have rest: "qdrant w1 = qdrant w" "environ w1 = environ w"
    by simp_all
  from try_models_ollama [of w "ollama_host w" "user_to_text u" models_to_try] g
  have o: "ollama w1 = ollama w" by (simp add: get_embedding_def)
  show ?thesis
    by (cases x)
      (auto simp: create_user_def g rest o Let_def upsert_def issue_def
        split: option.splits prod.splits sum.splits if_splits)
qed


text \<open>
  C2. The round trip fails for a user without age: \<open>create_user\<close> succeeds and returns
  an id, and \<open>get_user\<close> with that id raises the validation error of
  \<open>User(**payload)\<close> (\<open>create_then_get\<close> above: for every user, the round trip returns
  the user when the age is present and raises when it is absent).
\<close>

theorem create_then_get_without_age:
  "age bob = None \<and>
   fst (create_user (world_of answering (store_of (users_of []))) bob) =
     Inr \<lparr>ident = sample_uuid 0, user = bob, similarity_score = None\<rparr> \<and>
   fst (get_user (snd (create_user (world_of answering (store_of (users_of []))) bob))
          (sample_uuid 0)) = Inl (ValidationError ''age'')"
proof -
  let ?W = "world_of answering (store_of (users_of []))"
  let ?r = "\<lparr>ident = sample_uuid 0, user = bob, similarity_score = None\<rparr>"
  have ab: "age bob = None" by (simp add: bob_def)
  have len: "length unit_vec = vector_size \<lparr>vector_size = 768, distance = COSINE, points = []\<rparr>"
    by (simp add: unit_vec_def)
  from create_user_runs [OF answering_embeds store_users len store_answers]
  have f: "fst (create_user ?W bob) = Inr ?r"
    by (simp add: world_of_simps)
  then have h1: "create_user ?W bob = (Inr ?r, snd (create_user ?W bob))"
    by (simp add: prod_eq_iff)
  have h2: "\<not> faulty (qdrant (snd (create_user ?W bob))) (Retrieve COLLECTION_NAME [ident ?r])"
    using create_user_keeps [of ?W bob] store_answers [of answering "users_of []"] by simp
  from create_then_get [OF h1 h2] ab
  have "fst (get_user (snd (create_user ?W bob)) (sample_uuid 0)) = Inl (ValidationError ''age'')"
    by simp
  with ab f show ?thesis by (intro conjI)
qed








end
